theory Spec2Isabelle
  imports Main
begin

section \<open>Data model of the onboarding step sequencer\<close>

text \<open>
  The members of the \<open>Screens\<close> enum that the sequencer names, and \<open>OtherScreen\<close> for
  every other member of the enum (for instance \<open>OtherScreen ''SendConfirmation''\<close>).
\<close>

datatype Screens =
    PincodeSet
  | EnableBiometry
  | ImportSelect
  | SignInWithEmail
  | ImportWallet
  | LinkPhoneNumber
  | VerificationStartScreen
  | ProtectWallet
  | TabHome
  | ChooseYourAdventure
  | Welcome
  | OtherScreen string

text \<open>The biometry kinds of the keychain library; \<open>null\<close> is \<open>None\<close> of the option type.\<close>

datatype BIOMETRY_TYPE = TOUCH_ID | FACE_ID | FINGERPRINT | FACE | IRIS

text \<open>The members of the keyless backup enums that the sequencer passes as route parameters.\<close>

datatype KeylessBackupFlow = Setup

datatype KeylessBackupOrigin = Onboarding

record RouteParams =
  keylessBackupFlow :: KeylessBackupFlow
  origin :: KeylessBackupOrigin

text \<open>
  The toggles of \<open>ToggleableOnboardingFeatures\<close>. The members \<open>ProtectWallet\<close> and
  \<open>EnableBiometry\<close> carry the suffix \<open>Feature\<close> here, since the screens have these names.
\<close>

datatype ToggleableOnboardingFeatures =
    CloudBackup
  | CloudBackupSetupInOnboarding
  | PhoneVerification
  | ProtectWalletFeature
  | EnableBiometryFeature

text \<open>
  \<open>ONBOARDING_FEATURES_ENABLED\<close> is a constant of the configuration module; the functions
  that read it take it as their first argument.
\<close>

type_synonym OnboardingFeaturesEnabled = "ToggleableOnboardingFeatures \<Rightarrow> bool"

text \<open>
  \<open>choseToRestoreAccount\<close> is \<open>boolean | undefined\<close> (\<open>None\<close> is \<open>undefined\<close>) and
  \<open>supportedBiometryType\<close> is \<open>BIOMETRY_TYPE | null\<close> (\<open>None\<close> is \<open>null\<close>).
\<close>

record OnboardingProps =
  recoveringFromStoreWipe :: bool
  choseToRestoreAccount :: "bool option"
  supportedBiometryType :: "BIOMETRY_TYPE option"
  skipVerification :: bool
  numberAlreadyVerifiedCentrally :: bool
  showCloudAccountBackupRestore :: bool
  showCloudAccountBackupSetup :: bool
  skipProtectWallet :: bool

text \<open>The actions the sequencer hands to \<open>dispatch\<close>, by their action creators.\<close>

datatype Action =
    initializeAccount
  | onboardingCompleted
  | updateLastOnboardingScreen Screens
  | updateStatsigAndNavigate Screens

text \<open>
  The navigator functions act on a state \<open>'s\<close> that is threaded through the calls: the
  closure variables of the step counter, or the outside world for the real navigation
  service. A call \<open>navigate(screen)\<close> has the parameters \<open>None\<close>, a call
  \<open>navigate(screen, params)\<close> has \<open>Some params\<close>.
\<close>

record 's NavigatorFunctions =
  navigate :: "Screens \<Rightarrow> RouteParams option \<Rightarrow> 's \<Rightarrow> 's"
  popToScreen :: "Screens \<Rightarrow> 's \<Rightarrow> 's"
  finishOnboarding :: "Screens \<Rightarrow> 's \<Rightarrow> 's"
  navigateClearingStack :: "Screens \<Rightarrow> RouteParams option \<Rightarrow> 's \<Rightarrow> 's"

text \<open>The object \<open>{ next: () => ... }\<close> that the decision table returns.\<close>

record 's StepInfo =
  "next" :: "'s \<Rightarrow> 's"

text \<open>The one error of the sequencer: the \<open>throw\<close> of the \<open>default\<close> case.\<close>

datatype error = UnhandledScreen Screens

section \<open>The sequencer\<close>

definition END_OF_ONBOARDING_SCREENS :: "Screens list" where
  "END_OF_ONBOARDING_SCREENS = [TabHome, ChooseYourAdventure]"

definition firstOnboardingScreen :: "OnboardingFeaturesEnabled \<Rightarrow> bool \<Rightarrow> Screens" where
  "firstOnboardingScreen ONBOARDING_FEATURES_ENABLED recovering =
     (if recovering
      then (if ONBOARDING_FEATURES_ENABLED CloudBackup then ImportSelect else ImportWallet)
      else PincodeSet)"

text \<open>
  The result function of \<open>onboardingPropsSelector\<close>, applied to the values of its four
  input selectors.
\<close>

definition onboardingPropsSelector ::
  "OnboardingFeaturesEnabled \<Rightarrow> bool \<Rightarrow> bool option \<Rightarrow> BIOMETRY_TYPE option \<Rightarrow> bool
     \<Rightarrow> OnboardingProps" where
  "onboardingPropsSelector ONBOARDING_FEATURES_ENABLED recovering choseToRestore biometry
       verifiedCentrally =
     \<lparr> recoveringFromStoreWipe = recovering,
       choseToRestoreAccount = choseToRestore,
       supportedBiometryType =
         (if ONBOARDING_FEATURES_ENABLED EnableBiometryFeature then biometry else None),
       skipVerification = (\<not> ONBOARDING_FEATURES_ENABLED PhoneVerification),
       numberAlreadyVerifiedCentrally = verifiedCentrally,
       showCloudAccountBackupRestore = ONBOARDING_FEATURES_ENABLED CloudBackup,
       showCloudAccountBackupSetup =
         (ONBOARDING_FEATURES_ENABLED CloudBackup
          \<and> ONBOARDING_FEATURES_ENABLED CloudBackupSetupInOnboarding),
       skipProtectWallet = (\<not> ONBOARDING_FEATURES_ENABLED ProtectWalletFeature) \<rparr>"

subsection \<open>The decision table\<close>

text \<open>\<open>wrapNavigate\<close>: navigate, then record the destination as the last onboarding screen.\<close>

definition wrapNavigate ::
  "'s NavigatorFunctions \<Rightarrow> (Action \<Rightarrow> 's \<Rightarrow> 's) \<Rightarrow> Screens \<Rightarrow> RouteParams option \<Rightarrow> 's \<Rightarrow> 's" where
  "wrapNavigate navigator dispatch screen params s =
     dispatch (updateLastOnboardingScreen screen) (navigate navigator screen params s)"

definition navigateImportOrImportSelect ::
  "'s NavigatorFunctions \<Rightarrow> (Action \<Rightarrow> 's \<Rightarrow> 's) \<Rightarrow> OnboardingProps \<Rightarrow> 's \<Rightarrow> 's" where
  "navigateImportOrImportSelect navigator dispatch props s =
     (if showCloudAccountBackupRestore props
      then wrapNavigate navigator dispatch ImportSelect None s
      else wrapNavigate navigator dispatch ImportWallet None s)"

text \<open>
  \<open>_getStepInfo\<close>. The \<open>switch\<close> is the \<open>case\<close>; its \<open>default\<close> throws, which is \<open>Inl\<close>.
  A \<open>boolean | undefined\<close> in a condition is true only when it is \<open>Some True\<close>.
\<close>

definition getStepInfo ::
  "Screens \<Rightarrow> 's NavigatorFunctions \<Rightarrow> (Action \<Rightarrow> 's \<Rightarrow> 's) \<Rightarrow> OnboardingProps
     \<Rightarrow> error + 's StepInfo" where
  "getStepInfo firstScreenInStep navigator dispatch props =
     (case firstScreenInStep of
        PincodeSet \<Rightarrow> Inr \<lparr> next = (\<lambda>s.
          if supportedBiometryType props \<noteq> None
          then wrapNavigate navigator dispatch EnableBiometry None s
          else if choseToRestoreAccount props = Some True
          then navigateImportOrImportSelect navigator dispatch props
                 (popToScreen navigator Welcome s)
          else if showCloudAccountBackupSetup props
          then wrapNavigate navigator dispatch SignInWithEmail
                 (Some \<lparr> keylessBackupFlow = Setup, origin = Onboarding \<rparr>)
                 (dispatch initializeAccount s)
          else if skipProtectWallet props
          then finishOnboarding navigator ChooseYourAdventure (dispatch initializeAccount s)
          else wrapNavigate navigator dispatch ProtectWallet None (dispatch initializeAccount s)) \<rparr>
      | EnableBiometry \<Rightarrow> Inr \<lparr> next = (\<lambda>s.
          if choseToRestoreAccount props = Some True
          then navigateImportOrImportSelect navigator dispatch props s
          else if showCloudAccountBackupSetup props
          then wrapNavigate navigator dispatch SignInWithEmail
                 (Some \<lparr> keylessBackupFlow = Setup, origin = Onboarding \<rparr>)
                 (dispatch initializeAccount s)
          else if skipProtectWallet props
          then finishOnboarding navigator ChooseYourAdventure (dispatch initializeAccount s)
          else wrapNavigate navigator dispatch ProtectWallet None (dispatch initializeAccount s)) \<rparr>
      | ImportSelect \<Rightarrow> Inr \<lparr> next = (\<lambda>s.
          if skipVerification props \<or> numberAlreadyVerifiedCentrally props
          then finishOnboarding navigator ChooseYourAdventure s
          else wrapNavigate navigator dispatch LinkPhoneNumber None s) \<rparr>
      | SignInWithEmail \<Rightarrow> Inr \<lparr> next = (\<lambda>s.
          if skipVerification props \<or> numberAlreadyVerifiedCentrally props
          then finishOnboarding navigator ChooseYourAdventure s
          else wrapNavigate navigator dispatch VerificationStartScreen None s) \<rparr>
      | ImportWallet \<Rightarrow> Inr \<lparr> next = (\<lambda>s.
          if skipVerification props \<or> numberAlreadyVerifiedCentrally props
          then finishOnboarding navigator ChooseYourAdventure s
          else wrapNavigate navigator dispatch VerificationStartScreen None s) \<rparr>
      | LinkPhoneNumber \<Rightarrow> Inr \<lparr> next = (\<lambda>s.
          finishOnboarding navigator ChooseYourAdventure s) \<rparr>
      | VerificationStartScreen \<Rightarrow> Inr \<lparr> next = (\<lambda>s.
          finishOnboarding navigator ChooseYourAdventure s) \<rparr>
      | ProtectWallet \<Rightarrow> Inr \<lparr> next = (\<lambda>s.
          if skipVerification props
          then finishOnboarding navigator ChooseYourAdventure s
          else wrapNavigate navigator dispatch VerificationStartScreen None s) \<rparr>
      | _ \<Rightarrow> Inl (UnhandledScreen firstScreenInStep))"

text \<open>
  The message of the thrown \<open>Error\<close>. The template prints the enum member's string
  value, which the \<open>Screens\<close> module defines: \<open>screenValue\<close> stands for it.
\<close>

definition errorMessage :: "(Screens \<Rightarrow> string) \<Rightarrow> error \<Rightarrow> string" where
  "errorMessage screenValue e =
     (case e of UnhandledScreen screen \<Rightarrow>
        ''No step info found for '' @ screenValue screen
          @ ''. this step needs to be handled in _getStepInfo'')"

subsection \<open>The step counter\<close>

text \<open>The variables that the closures of \<open>getOnboardingStepValues\<close> update.\<close>

record Counters =
  stepCounter :: nat
  totalCounter :: nat
  reachedStep :: bool
  currentScreen :: Screens

definition nextStepAndCount :: "Screens \<Rightarrow> Screens \<Rightarrow> RouteParams option \<Rightarrow> Counters \<Rightarrow> Counters" where
  "nextStepAndCount screen nextScreen params c =
     (let c1 =
        (if nextScreen \<notin> set END_OF_ONBOARDING_SCREENS
         then
           (let c2 = c \<lparr> totalCounter := totalCounter c + 1 \<rparr>;
                c3 = (if currentScreen c2 = screen then c2 \<lparr> reachedStep := True \<rparr> else c2)
            in (if \<not> reachedStep c3 then c3 \<lparr> stepCounter := stepCounter c3 + 1 \<rparr> else c3))
         else c)
      in c1 \<lparr> currentScreen := nextScreen \<rparr>)"

definition countingFinishOnboarding :: "Screens \<Rightarrow> Counters \<Rightarrow> Counters" where
  "countingFinishOnboarding nextScreen c = c \<lparr> currentScreen := nextScreen \<rparr>"

definition countingNavigator :: "Screens \<Rightarrow> Counters NavigatorFunctions" where
  "countingNavigator screen =
     \<lparr> navigate = nextStepAndCount screen,
       popToScreen = (\<lambda>_ c. c),
       finishOnboarding = countingFinishOnboarding,
       navigateClearingStack = nextStepAndCount screen \<rparr>"

text \<open>
  One pass through the body of the \<open>while\<close> loop. The check \<open>if (!stepInfo)\<close> never
  fires, since \<open>_getStepInfo\<close> returns an object or throws.
\<close>

definition loopBody :: "OnboardingProps \<Rightarrow> Screens \<Rightarrow> Counters \<Rightarrow> error + Counters" where
  "loopBody props screen c =
     (case getStepInfo (currentScreen c) (countingNavigator screen) (\<lambda>_ c'. c') props of
        Inl e \<Rightarrow> Inl e
      | Inr stepInfo \<Rightarrow> Inr (next stepInfo c))"

text \<open>
  The length of the longest chain of transitions that leaves a screen; it decreases
  along every transition of the table.
\<close>

fun stepsLeft :: "Screens \<Rightarrow> nat" where
  "stepsLeft PincodeSet = 4"
| "stepsLeft EnableBiometry = 3"
| "stepsLeft ImportSelect = 2"
| "stepsLeft SignInWithEmail = 2"
| "stepsLeft ImportWallet = 2"
| "stepsLeft ProtectWallet = 2"
| "stepsLeft LinkPhoneNumber = 1"
| "stepsLeft VerificationStartScreen = 1"
| "stepsLeft _ = 0"

text \<open>
  The \<open>while\<close> loop of \<open>getOnboardingStepValues\<close>: it runs the body until the current
  screen is an end screen, and a \<open>throw\<close> in the body leaves it. It terminates, since
  every pass lowers \<open>stepsLeft\<close> of the current screen.
\<close>

function whileLoop :: "OnboardingProps \<Rightarrow> Screens \<Rightarrow> Counters \<Rightarrow> error + Counters" where
  "whileLoop props screen c =
     (if currentScreen c \<notin> set END_OF_ONBOARDING_SCREENS
      then (case loopBody props screen c of
              Inl e \<Rightarrow> Inl e
            | Inr c' \<Rightarrow> whileLoop props screen c')
      else Inr c)"
  by pat_completeness auto
termination
  by (relation "measure (\<lambda>(props, screen, c). stepsLeft (currentScreen c))")
     (auto simp: loopBody_def getStepInfo_def countingNavigator_def wrapNavigate_def
        navigateImportOrImportSelect_def nextStepAndCount_def countingFinishOnboarding_def
        Let_def split: if_splits Screens.splits)

declare whileLoop.simps [simp del]

text \<open>
  The values of the closure variables at the head of the loop, pass after pass: the
  same recursion as \<open>whileLoop\<close>, keeping every state instead of the last one.
\<close>

function loopStates :: "OnboardingProps \<Rightarrow> Screens \<Rightarrow> Counters \<Rightarrow> Counters list" where
  "loopStates props screen c =
     (if currentScreen c \<notin> set END_OF_ONBOARDING_SCREENS
      then (case loopBody props screen c of
              Inl e \<Rightarrow> [c]
            | Inr c' \<Rightarrow> c # loopStates props screen c')
      else [c])"
  by pat_completeness auto
termination
  by (relation "measure (\<lambda>(props, screen, c). stepsLeft (currentScreen c))")
     (auto simp: loopBody_def getStepInfo_def countingNavigator_def wrapNavigate_def
        navigateImportOrImportSelect_def nextStepAndCount_def countingFinishOnboarding_def
        Let_def split: if_splits Screens.splits)

declare loopStates.simps [simp del]

text \<open>The screens that have a case in the table, and the two end screens.\<close>

definition onboardingScreen :: "Screens \<Rightarrow> bool" where
  "onboardingScreen s = (0 < stepsLeft s \<or> s \<in> set END_OF_ONBOARDING_SCREENS)"

record StepValues =
  totalSteps :: nat
  step :: nat

definition getOnboardingStepValues ::
  "OnboardingFeaturesEnabled \<Rightarrow> Screens \<Rightarrow> OnboardingProps \<Rightarrow> error + StepValues" where
  "getOnboardingStepValues ONBOARDING_FEATURES_ENABLED screen onboardingProps =
     (let firstScreen =
            firstOnboardingScreen ONBOARDING_FEATURES_ENABLED
              (recoveringFromStoreWipe onboardingProps)
      in (case whileLoop onboardingProps screen
                 \<lparr> stepCounter = 1, totalCounter = 1, reachedStep = False,
                   currentScreen = firstScreen \<rparr> of
            Inl e \<Rightarrow> Inl e
          | Inr c \<Rightarrow> Inr \<lparr> totalSteps = totalCounter c, step = stepCounter c \<rparr>))"

subsection \<open>The navigation driver\<close>

text \<open>
  What the real navigation service and the store receive, in the order of the calls.
\<close>

datatype Effect =
    Navigate Screens "RouteParams option"
  | PopToScreen Screens
  | NavigateClearingStack Screens "RouteParams option"
  | Dispatch Action

definition store_dispatch :: "Action \<Rightarrow> Effect list \<Rightarrow> Effect list" where
  "store_dispatch action w = w @ [Dispatch action]"

definition NavigationService :: "Effect list NavigatorFunctions" where
  "NavigationService =
     \<lparr> navigate = (\<lambda>screen params w. w @ [Navigate screen params]),
       popToScreen = (\<lambda>screen w. w @ [PopToScreen screen]),
       finishOnboarding = (\<lambda>screen w.
         store_dispatch (updateStatsigAndNavigate screen)
           (store_dispatch (updateLastOnboardingScreen screen)
             (store_dispatch onboardingCompleted w))),
       navigateClearingStack = (\<lambda>screen params w. w @ [NavigateClearingStack screen params]) \<rparr>"

definition goToNextOnboardingScreen ::
  "Screens \<Rightarrow> OnboardingProps \<Rightarrow> Effect list \<Rightarrow> error + Effect list" where
  "goToNextOnboardingScreen firstScreenInCurrentStep onboardingProps w =
     (case getStepInfo firstScreenInCurrentStep NavigationService store_dispatch onboardingProps of
        Inl e \<Rightarrow> Inl e
      | Inr stepInfo \<Rightarrow> Inr (next stepInfo w))"

section \<open>Unfolding the definitions\<close>

lemmas table_defs = getStepInfo_def wrapNavigate_def navigateImportOrImportSelect_def

lemmas driver_defs = goToNextOnboardingScreen_def NavigationService_def store_dispatch_def

lemmas counting_defs = loopBody_def countingNavigator_def nextStepAndCount_def
  countingFinishOnboarding_def END_OF_ONBOARDING_SCREENS_def

section \<open>The loop of the step counter\<close>

text \<open>Every transition of the table lowers the number of steps left.\<close>

lemma loopBody_stepsLeft:
  assumes "loopBody props screen c = Inr c'"
  shows "stepsLeft (currentScreen c') < stepsLeft (currentScreen c)"
  using assms
  by (cases "currentScreen c")
     (auto simp: counting_defs table_defs Let_def split: if_splits)

text \<open>A screen with a case in the table has a transition, and it leads to an onboarding screen.\<close>

lemma loopBody_total:
  assumes "0 < stepsLeft (currentScreen c)"
  shows "\<exists>c'. loopBody props screen c = Inr c' \<and> onboardingScreen (currentScreen c')"
  using assms
  by (cases "currentScreen c")
     (auto simp: counting_defs table_defs onboardingScreen_def Let_def)

lemma loopBody_counters:
  assumes "loopBody props screen c = Inr c'" and "stepCounter c \<le> totalCounter c"
  shows "stepCounter c' \<le> totalCounter c'"
  using assms
  by (cases "currentScreen c")
     (auto simp: counting_defs table_defs Let_def split: if_splits)

lemma loopBody_lockstep:
  assumes "loopBody props screen c = Inr c'" and "currentScreen c \<noteq> screen"
    and "\<not> reachedStep c" and "stepCounter c = totalCounter c"
  shows "\<not> reachedStep c' \<and> stepCounter c' = totalCounter c'"
  using assms
  by (cases "currentScreen c")
     (auto simp: counting_defs table_defs Let_def split: if_splits)

lemma loopBody_not_EnableBiometry:
  assumes "loopBody props screen c = Inr c'" and "supportedBiometryType props = None"
  shows "currentScreen c' \<noteq> EnableBiometry"
  using assms
  by (cases "currentScreen c")
     (auto simp: counting_defs table_defs Let_def split: if_splits)

lemma driver_not_EnableBiometry:
  assumes "goToNextOnboardingScreen s props [] = Inr w" and "supportedBiometryType props = None"
  shows "Navigate EnableBiometry params \<notin> set w"
  using assms
  by (cases s) (auto simp: driver_defs table_defs split: if_splits)

lemma firstOnboardingScreen_steps:
  "onboardingScreen (firstOnboardingScreen features r)
   \<and> stepsLeft (firstOnboardingScreen features r) \<le> 4"
  by (simp add: firstOnboardingScreen_def onboardingScreen_def)

text \<open>
  The invariant rule of the loop: what holds before the loop and is kept by every pass
  holds when the loop returns, and then the current screen is an end screen.
\<close>

lemma whileLoop_rule:
  assumes "whileLoop props screen c = Inr c'" and "I c"
    and "\<And>a b. I a \<Longrightarrow> currentScreen a \<notin> set END_OF_ONBOARDING_SCREENS
                 \<Longrightarrow> loopBody props screen a = Inr b \<Longrightarrow> I b"
  shows "I c' \<and> currentScreen c' \<in> set END_OF_ONBOARDING_SCREENS"
  using assms
proof (induction props screen c rule: whileLoop.induct)
  case (1 props screen c)
  show ?case
  proof (cases "currentScreen c \<in> set END_OF_ONBOARDING_SCREENS")
    case True
    with "1.prems" show ?thesis by (simp add: whileLoop.simps [of props screen c])
  next
    case False
    with "1.prems"(1) obtain b where b: "loopBody props screen c = Inr b"
      and run: "whileLoop props screen b = Inr c'"
      by (auto simp: whileLoop.simps [of props screen c] split: sum.splits)
    from "1.prems"(2) False b have "I b" by (rule "1.prems"(3))
    with "1.IH" [OF False b run] "1.prems"(3) show ?thesis by blast
  qed
qed

lemma loopStates_hd: "\<exists>rest. loopStates props screen c = c # rest"
  by (subst loopStates.simps) (simp split: sum.splits)

text \<open>From an onboarding screen the loop returns, with the last of its states.\<close>

lemma whileLoop_last:
  assumes "onboardingScreen (currentScreen c)"
  shows "whileLoop props screen c = Inr (last (loopStates props screen c))
         \<and> currentScreen (last (loopStates props screen c)) \<in> set END_OF_ONBOARDING_SCREENS"
  using assms
proof (induction props screen c rule: whileLoop.induct)
  case (1 props screen c)
  show ?case
  proof (cases "currentScreen c \<in> set END_OF_ONBOARDING_SCREENS")
    case True
    then show ?thesis
      by (simp add: whileLoop.simps [of props screen c] loopStates.simps [of props screen c])
  next
    case False
    with "1.prems" have "0 < stepsLeft (currentScreen c)"
      by (simp add: onboardingScreen_def)
    then obtain b where b: "loopBody props screen c = Inr b"
      and ob: "onboardingScreen (currentScreen b)"
      using loopBody_total by blast
    obtain rest where rest: "loopStates props screen b = b # rest"
      using loopStates_hd by blast
    from "1.IH" [OF False b ob] False b rest show ?thesis
      by (simp add: whileLoop.simps [of props screen c] loopStates.simps [of props screen c])
  qed
qed

lemma getOnboardingStepValues_returns:
  "\<exists>r. getOnboardingStepValues features screen props = Inr r"
proof -
  let ?start = "\<lparr> stepCounter = 1, totalCounter = 1, reachedStep = False,
      currentScreen = firstOnboardingScreen features (recoveringFromStoreWipe props) \<rparr>"
  have "onboardingScreen (currentScreen ?start)"
    using firstOnboardingScreen_steps by simp
  then have "whileLoop props screen ?start = Inr (last (loopStates props screen ?start))"
    using whileLoop_last by blast
  then show ?thesis by (simp add: getOnboardingStepValues_def)
qed

text \<open>Along the states of the loop the number of steps left goes down.\<close>

lemma loopStates_stepsLeft:
  assumes "c' \<in> set (loopStates props screen c)"
  shows "c' = c \<or> stepsLeft (currentScreen c') < stepsLeft (currentScreen c)"
  using assms
proof (induction props screen c rule: loopStates.induct)
  case (1 props screen c)
  show ?case
  proof (cases "currentScreen c \<notin> set END_OF_ONBOARDING_SCREENS
                \<and> (\<exists>b. loopBody props screen c = Inr b)")
    case True
    then obtain b where nt: "currentScreen c \<notin> set END_OF_ONBOARDING_SCREENS"
      and b: "loopBody props screen c = Inr b" by blast
    from b have less: "stepsLeft (currentScreen b) < stepsLeft (currentScreen c)"
      by (rule loopBody_stepsLeft)
    from "1.prems" nt b have "c' = c \<or> c' \<in> set (loopStates props screen b)"
      by (simp add: loopStates.simps [of props screen c])
    with "1.IH" [OF nt b] less show ?thesis by auto
  next
    case False
    with "1.prems" show ?thesis
      by (auto simp: loopStates.simps [of props screen c] split: sum.splits)
  qed
qed

lemma loopStates_distinct: "distinct (map currentScreen (loopStates props screen c))"
proof (induction props screen c rule: loopStates.induct)
  case (1 props screen c)
  show ?case
  proof (cases "currentScreen c \<notin> set END_OF_ONBOARDING_SCREENS
                \<and> (\<exists>b. loopBody props screen c = Inr b)")
    case True
    then obtain b where nt: "currentScreen c \<notin> set END_OF_ONBOARDING_SCREENS"
      and b: "loopBody props screen c = Inr b" by blast
    from b have less: "stepsLeft (currentScreen b) < stepsLeft (currentScreen c)"
      by (rule loopBody_stepsLeft)
    have "currentScreen c \<noteq> currentScreen c'" if "c' \<in> set (loopStates props screen b)" for c'
      using loopStates_stepsLeft [OF that] less by auto
    with "1.IH" [OF nt b] nt b show ?thesis
      by (auto simp: loopStates.simps [of props screen c])
  next
    case False
    then show ?thesis
      by (auto simp: loopStates.simps [of props screen c] split: sum.splits)
  qed
qed

lemma loopStates_length:
  "length (loopStates props screen c) \<le> Suc (stepsLeft (currentScreen c))"
proof (induction props screen c rule: loopStates.induct)
  case (1 props screen c)
  show ?case
  proof (cases "currentScreen c \<notin> set END_OF_ONBOARDING_SCREENS
                \<and> (\<exists>b. loopBody props screen c = Inr b)")
    case True
    then obtain b where nt: "currentScreen c \<notin> set END_OF_ONBOARDING_SCREENS"
      and b: "loopBody props screen c = Inr b" by blast
    from b have "stepsLeft (currentScreen b) < stepsLeft (currentScreen c)"
      by (rule loopBody_stepsLeft)
    with "1.IH" [OF nt b] nt b show ?thesis
      by (simp add: loopStates.simps [of props screen c])
  next
    case False
    then show ?thesis
      by (auto simp: loopStates.simps [of props screen c] split: sum.splits)
  qed
qed

text \<open>Each state but the last is not at an end screen, and one pass leads to the next state.\<close>

lemma loopStates_chain:
  assumes "Suc i < length (loopStates props screen c)"
  shows "currentScreen (loopStates props screen c ! i) \<notin> set END_OF_ONBOARDING_SCREENS
         \<and> loopBody props screen (loopStates props screen c ! i)
             = Inr (loopStates props screen c ! Suc i)"
  using assms
proof (induction props screen c arbitrary: i rule: loopStates.induct)
  case (1 props screen c)
  show ?case
  proof (cases "currentScreen c \<notin> set END_OF_ONBOARDING_SCREENS
                \<and> (\<exists>b. loopBody props screen c = Inr b)")
    case True
    then obtain b where nt: "currentScreen c \<notin> set END_OF_ONBOARDING_SCREENS"
      and b: "loopBody props screen c = Inr b" by blast
    have unfold: "loopStates props screen c = c # loopStates props screen b"
      using nt b by (simp add: loopStates.simps [of props screen c])
    obtain rest where rest: "loopStates props screen b = b # rest"
      using loopStates_hd by blast
    show ?thesis
    proof (cases i)
      case 0
      with nt b unfold rest show ?thesis by simp
    next
      case (Suc j)
      with "1.prems" unfold have "Suc j < length (loopStates props screen b)" by simp
      from "1.IH" [OF nt b this] Suc unfold show ?thesis by simp
    qed
  next
    case False
    with "1.prems" show ?thesis
      by (auto simp: loopStates.simps [of props screen c] split: sum.splits)
  qed
qed

lemma loopStates_closed:
  assumes "a \<in> set (loopStates props screen c)"
    and "currentScreen a \<notin> set END_OF_ONBOARDING_SCREENS"
    and "loopBody props screen a = Inr b"
  shows "b \<in> set (loopStates props screen c)"
  using assms
proof (induction props screen c rule: loopStates.induct)
  case (1 props screen c)
  show ?case
  proof (cases "a = c")
    case True
    obtain rest where "loopStates props screen b = b # rest"
      using loopStates_hd by blast
    with True "1.prems"(2,3) show ?thesis
      by (simp add: loopStates.simps [of props screen c])
  next
    case False
    with "1.prems"(1) obtain d where nt: "currentScreen c \<notin> set END_OF_ONBOARDING_SCREENS"
      and d: "loopBody props screen c = Inr d"
      and mem: "a \<in> set (loopStates props screen d)"
      by (auto simp: loopStates.simps [of props screen c] split: if_splits sum.splits)
    from "1.IH" [OF nt d mem "1.prems"(2,3)] nt d show ?thesis
      by (simp add: loopStates.simps [of props screen c])
  qed
qed

lemma loopStates_members:
  assumes "c' \<in> set (loopStates props screen c)"
  shows "c' = c \<or> (\<exists>a. loopBody props screen a = Inr c')"
proof -
  from assms obtain j where j: "j < length (loopStates props screen c)"
    and at: "loopStates props screen c ! j = c'"
    by (auto simp: in_set_conv_nth)
  obtain rest where rest: "loopStates props screen c = c # rest"
    using loopStates_hd by blast
  show ?thesis
  proof (cases j)
    case 0
    with at rest show ?thesis by simp
  next
    case (Suc i)
    with j loopStates_chain [of i props screen c] at show ?thesis by auto
  qed
qed

section \<open>Scenario A\<close>

text \<open>
  C1. For the snapshot with \<open>recoveringFromStoreWipe\<close> false, no biometry, no restore
  choice, no cloud backup setup, \<open>skipProtectWallet\<close>, \<open>skipVerification\<close> and
  \<open>numberAlreadyVerifiedCentrally\<close> false (and either value of
  \<open>showCloudAccountBackupRestore\<close>, which the scenario leaves open), the transition from
  \<open>PincodeSet\<close> dispatches \<open>initializeAccount\<close> and then navigates to \<open>ProtectWallet\<close>, and
  \<open>getOnboardingStepValues\<close> for \<open>ProtectWallet\<close> returns step 2 of 3, whatever the
  feature configuration.
\<close>

theorem C1_scenario_A:
  "goToNextOnboardingScreen PincodeSet
     \<lparr> recoveringFromStoreWipe = False, choseToRestoreAccount = None,
       supportedBiometryType = None, skipVerification = False,
       numberAlreadyVerifiedCentrally = False, showCloudAccountBackupRestore = r,
       showCloudAccountBackupSetup = False, skipProtectWallet = False \<rparr> w
   = Inr (w @ [Dispatch initializeAccount, Navigate ProtectWallet None,
               Dispatch (updateLastOnboardingScreen ProtectWallet)])
   \<and> getOnboardingStepValues features ProtectWallet
     \<lparr> recoveringFromStoreWipe = False, choseToRestoreAccount = None,
       supportedBiometryType = None, skipVerification = False,
       numberAlreadyVerifiedCentrally = False, showCloudAccountBackupRestore = r,
       showCloudAccountBackupSetup = False, skipProtectWallet = False \<rparr>
   = Inr \<lparr> totalSteps = 3, step = 2 \<rparr>"
proof
  show "goToNextOnboardingScreen PincodeSet
     \<lparr> recoveringFromStoreWipe = False, choseToRestoreAccount = None,
       supportedBiometryType = None, skipVerification = False,
       numberAlreadyVerifiedCentrally = False, showCloudAccountBackupRestore = r,
       showCloudAccountBackupSetup = False, skipProtectWallet = False \<rparr> w
   = Inr (w @ [Dispatch initializeAccount, Navigate ProtectWallet None,
               Dispatch (updateLastOnboardingScreen ProtectWallet)])"
    by (simp add: driver_defs table_defs)
next
  show "getOnboardingStepValues features ProtectWallet
     \<lparr> recoveringFromStoreWipe = False, choseToRestoreAccount = None,
       supportedBiometryType = None, skipVerification = False,
       numberAlreadyVerifiedCentrally = False, showCloudAccountBackupRestore = r,
       showCloudAccountBackupSetup = False, skipProtectWallet = False \<rparr>
   = Inr \<lparr> totalSteps = 3, step = 2 \<rparr>"
    by (simp add: getOnboardingStepValues_def firstOnboardingScreen_def whileLoop.simps
          counting_defs table_defs Let_def)
qed

section \<open>EnableBiometry against PincodeSet\<close>

text \<open>
  C2, as stated, fails: a user who chose to restore, on a device with a fingerprint
  sensor. From \<open>EnableBiometry\<close> the driver navigates to \<open>ImportWallet\<close>; from
  \<open>PincodeSet\<close> with the biometry type set to none it first pops to \<open>Welcome\<close>.
\<close>

theorem C2_restore_branch_differs:
  "goToNextOnboardingScreen EnableBiometry
     \<lparr> recoveringFromStoreWipe = False, choseToRestoreAccount = Some True,
       supportedBiometryType = Some FINGERPRINT, skipVerification = False,
       numberAlreadyVerifiedCentrally = False, showCloudAccountBackupRestore = False,
       showCloudAccountBackupSetup = False, skipProtectWallet = False \<rparr> []
   = Inr [Navigate ImportWallet None, Dispatch (updateLastOnboardingScreen ImportWallet)]
   \<and> goToNextOnboardingScreen PincodeSet
     (\<lparr> recoveringFromStoreWipe = False, choseToRestoreAccount = Some True,
        supportedBiometryType = Some FINGERPRINT, skipVerification = False,
        numberAlreadyVerifiedCentrally = False, showCloudAccountBackupRestore = False,
        showCloudAccountBackupSetup = False, skipProtectWallet = False \<rparr>
      \<lparr> supportedBiometryType := None \<rparr>) []
   = Inr [PopToScreen Welcome, Navigate ImportWallet None,
          Dispatch (updateLastOnboardingScreen ImportWallet)]
   \<and> goToNextOnboardingScreen EnableBiometry
     \<lparr> recoveringFromStoreWipe = False, choseToRestoreAccount = Some True,
       supportedBiometryType = Some FINGERPRINT, skipVerification = False,
       numberAlreadyVerifiedCentrally = False, showCloudAccountBackupRestore = False,
       showCloudAccountBackupSetup = False, skipProtectWallet = False \<rparr> []
   \<noteq> goToNextOnboardingScreen PincodeSet
     (\<lparr> recoveringFromStoreWipe = False, choseToRestoreAccount = Some True,
        supportedBiometryType = Some FINGERPRINT, skipVerification = False,
        numberAlreadyVerifiedCentrally = False, showCloudAccountBackupRestore = False,
        showCloudAccountBackupSetup = False, skipProtectWallet = False \<rparr>
      \<lparr> supportedBiometryType := None \<rparr>) []"
  by (simp add: driver_defs table_defs)

text \<open>
  C2, amended. For every snapshot, the transition from \<open>EnableBiometry\<close> makes the calls
  that the transition from \<open>PincodeSet\<close> makes for the same snapshot with the biometry type
  set to none, except that in the restore branch (\<open>choseToRestoreAccount\<close> true) it does not
  pop to \<open>Welcome\<close> first. This holds for any navigator and dispatch function, and so for
  the effects of the driver.
\<close>

theorem C2_EnableBiometry_as_PincodeSet_without_pop:
  "(\<exists>fromBiometry fromPincode.
       getStepInfo EnableBiometry navigator dispatch props = Inr fromBiometry
     \<and> getStepInfo PincodeSet navigator dispatch (props \<lparr> supportedBiometryType := None \<rparr>)
         = Inr fromPincode
     \<and> (\<forall>s. next fromPincode s
            = next fromBiometry
                (if choseToRestoreAccount props = Some True
                 then popToScreen navigator Welcome s else s)))
   \<and> (\<exists>effects.
       goToNextOnboardingScreen EnableBiometry props w = Inr (w @ effects)
     \<and> goToNextOnboardingScreen PincodeSet (props \<lparr> supportedBiometryType := None \<rparr>) w
         = Inr (w @ (if choseToRestoreAccount props = Some True
                     then [PopToScreen Welcome] else []) @ effects))"
  by (simp add: driver_defs table_defs)

section \<open>Termination of the simulation\<close>

text \<open>
  C3. For every snapshot, every feature configuration and every target screen, the states
  of the simulation loop start at \<open>firstOnboardingScreen\<close>, each state but the last is
  at a screen that is not an end screen and one pass of the loop body (one transition of
  the table) leads to the next state, the last state is at \<open>TabHome\<close> or
  \<open>ChooseYourAdventure\<close>, there are at most 6 transitions, no screen occurs twice, and
  \<open>getOnboardingStepValues\<close> returns the counters of the last state.
\<close>

theorem C3_simulation_terminates:
  fixes features props screen
  defines "start \<equiv> \<lparr> stepCounter = 1, totalCounter = 1, reachedStep = False,
      currentScreen = firstOnboardingScreen features (recoveringFromStoreWipe props) \<rparr>"
  defines "states \<equiv> loopStates props screen start"
  shows "hd states = start
    \<and> (\<forall>i. Suc i < length states \<longrightarrow>
          currentScreen (states ! i) \<notin> set END_OF_ONBOARDING_SCREENS
          \<and> loopBody props screen (states ! i) = Inr (states ! Suc i))
    \<and> currentScreen (last states) \<in> set END_OF_ONBOARDING_SCREENS
    \<and> length states - 1 \<le> 6
    \<and> distinct (map currentScreen states)
    \<and> getOnboardingStepValues features screen props
        = Inr \<lparr> totalSteps = totalCounter (last states), step = stepCounter (last states) \<rparr>"
proof -
  have ob: "onboardingScreen (currentScreen start)"
    and le: "stepsLeft (currentScreen start) \<le> 4"
    using firstOnboardingScreen_steps by (simp_all add: start_def)
  have "hd states = start"
    using loopStates_hd [of props screen start] by (auto simp: states_def)
  moreover have "\<forall>i. Suc i < length states \<longrightarrow>
          currentScreen (states ! i) \<notin> set END_OF_ONBOARDING_SCREENS
          \<and> loopBody props screen (states ! i) = Inr (states ! Suc i)"
    unfolding states_def using loopStates_chain by blast
  moreover have "currentScreen (last states) \<in> set END_OF_ONBOARDING_SCREENS"
    and run: "whileLoop props screen start = Inr (last states)"
    unfolding states_def using whileLoop_last [OF ob] by blast+
  moreover have "length states - 1 \<le> 6"
    using loopStates_length [of props screen start] le by (simp add: states_def)
  moreover have "distinct (map currentScreen states)"
    unfolding states_def by (rule loopStates_distinct)
  moreover have "getOnboardingStepValues features screen props
        = Inr \<lparr> totalSteps = totalCounter (last states), step = stepCounter (last states) \<rparr>"
    using run by (simp add: getOnboardingStepValues_def start_def)
  ultimately show ?thesis by blast
qed

theorem C3_simulation_terminates_witness:
  "Suc 0 < length (loopStates (onboardingPropsSelector (\<lambda>f. f = PhoneVerification \<or> f = ProtectWalletFeature) False None None False) ProtectWallet
          \<lparr> stepCounter = 1, totalCounter = 1, reachedStep = False,
            currentScreen = PincodeSet \<rparr>)
   \<and> loopBody (onboardingPropsSelector (\<lambda>f. f = PhoneVerification \<or> f = ProtectWalletFeature) False None None False) ProtectWallet
       (loopStates (onboardingPropsSelector (\<lambda>f. f = PhoneVerification \<or> f = ProtectWalletFeature) False None None False) ProtectWallet
          \<lparr> stepCounter = 1, totalCounter = 1, reachedStep = False,
            currentScreen = PincodeSet \<rparr> ! 0)
     = Inr (loopStates (onboardingPropsSelector (\<lambda>f. f = PhoneVerification \<or> f = ProtectWalletFeature) False None None False) ProtectWallet
          \<lparr> stepCounter = 1, totalCounter = 1, reachedStep = False,
            currentScreen = PincodeSet \<rparr> ! Suc 0)
   \<and> map currentScreen (loopStates (onboardingPropsSelector (\<lambda>f. f = PhoneVerification \<or> f = ProtectWalletFeature) False None None False) ProtectWallet
          \<lparr> stepCounter = 1, totalCounter = 1, reachedStep = False,
            currentScreen = PincodeSet \<rparr>)
     = [PincodeSet, ProtectWallet, VerificationStartScreen, ChooseYourAdventure]
   \<and> getOnboardingStepValues (\<lambda>f. f = PhoneVerification \<or> f = ProtectWalletFeature) ProtectWallet (onboardingPropsSelector (\<lambda>f. f = PhoneVerification \<or> f = ProtectWalletFeature) False None None False)
     = Inr \<lparr> totalSteps = 3, step = 2 \<rparr>"
  using C3_simulation_terminates [where features = "(\<lambda>f. f = PhoneVerification \<or> f = ProtectWalletFeature)" and screen = ProtectWallet
          and props = "(onboardingPropsSelector (\<lambda>f. f = PhoneVerification \<or> f = ProtectWalletFeature) False None None False)"]
  by (simp add: getOnboardingStepValues_def firstOnboardingScreen_def whileLoop.simps
        loopStates.simps onboardingPropsSelector_def counting_defs table_defs Let_def)

section \<open>Step and total\<close>

text \<open>
  C4. Whenever \<open>getOnboardingStepValues\<close> returns for a screen and a snapshot, the step it
  returns is at most the total it returns.
\<close>

theorem C4_step_le_total:
  assumes "getOnboardingStepValues features screen props = Inr r"
  shows "step r \<le> totalSteps r"
proof -
  let ?start = "\<lparr> stepCounter = 1, totalCounter = 1, reachedStep = False,
      currentScreen = firstOnboardingScreen features (recoveringFromStoreWipe props) \<rparr>"
  from assms obtain c where run: "whileLoop props screen ?start = Inr c"
    and r: "r = \<lparr> totalSteps = totalCounter c, step = stepCounter c \<rparr>"
    by (auto simp: getOnboardingStepValues_def split: sum.splits)
  have "stepCounter c \<le> totalCounter c
        \<and> currentScreen c \<in> set END_OF_ONBOARDING_SCREENS"
    by (rule whileLoop_rule [OF run]) (simp_all add: loopBody_counters)
  with r show ?thesis by simp
qed

theorem C4_step_le_total_witness:
  "getOnboardingStepValues (\<lambda>f. f = PhoneVerification \<or> f = ProtectWalletFeature) ProtectWallet (onboardingPropsSelector (\<lambda>f. f = PhoneVerification \<or> f = ProtectWalletFeature) False None None False)
     = Inr \<lparr> totalSteps = 3, step = 2 \<rparr>
   \<and> step \<lparr> totalSteps = 3, step = 2 \<rparr> \<le> totalSteps \<lparr> totalSteps = 3, step = 2 \<rparr>"
  using C4_step_le_total [where features = "(\<lambda>f. f = PhoneVerification \<or> f = ProtectWalletFeature)" and screen = ProtectWallet
          and props = "(onboardingPropsSelector (\<lambda>f. f = PhoneVerification \<or> f = ProtectWalletFeature) False None None False)" and r = "\<lparr> totalSteps = 3, step = 2 \<rparr>"]
  by (simp add: getOnboardingStepValues_def firstOnboardingScreen_def whileLoop.simps
        onboardingPropsSelector_def counting_defs table_defs Let_def)

section \<open>The unhandled screen\<close>

text \<open>
  C5. A screen without a case in the table (any screen but \<open>PincodeSet\<close>,
  \<open>EnableBiometry\<close>, \<open>ImportSelect\<close>, \<open>SignInWithEmail\<close>, \<open>ImportWallet\<close>,
  \<open>LinkPhoneNumber\<close>, \<open>VerificationStartScreen\<close>, \<open>ProtectWallet\<close>) makes the table, and
  with it the driver, raise the error for that screen, whose message starts with
  \<open>No step info found for\<close>. For the screens with a case the table returns a transition
  and the driver returns, for every snapshot. The step counter returns for every target
  screen and snapshot.
\<close>

theorem C5_unhandled_screen:
  "(s \<notin> {PincodeSet, EnableBiometry, ImportSelect, SignInWithEmail, ImportWallet,
           LinkPhoneNumber, VerificationStartScreen, ProtectWallet}
      \<longrightarrow> getStepInfo s navigator dispatch props = Inl (UnhandledScreen s)
          \<and> goToNextOnboardingScreen s props w = Inl (UnhandledScreen s)
          \<and> errorMessage screenValue (UnhandledScreen s)
              = ''No step info found for '' @ screenValue s
                  @ ''. this step needs to be handled in _getStepInfo'')
   \<and> (s \<in> {PincodeSet, EnableBiometry, ImportSelect, SignInWithEmail, ImportWallet,
            LinkPhoneNumber, VerificationStartScreen, ProtectWallet}
      \<longrightarrow> (\<exists>stepInfo. getStepInfo s navigator dispatch props = Inr stepInfo)
          \<and> (\<exists>w'. goToNextOnboardingScreen s props w = Inr w'))
   \<and> (\<exists>r. getOnboardingStepValues features s props = Inr r)"
proof (intro conjI)
  show "s \<notin> {PincodeSet, EnableBiometry, ImportSelect, SignInWithEmail, ImportWallet,
           LinkPhoneNumber, VerificationStartScreen, ProtectWallet}
      \<longrightarrow> getStepInfo s navigator dispatch props = Inl (UnhandledScreen s)
          \<and> goToNextOnboardingScreen s props w = Inl (UnhandledScreen s)
          \<and> errorMessage screenValue (UnhandledScreen s)
              = ''No step info found for '' @ screenValue s
                  @ ''. this step needs to be handled in _getStepInfo''"
    by (cases s) (simp_all add: getStepInfo_def goToNextOnboardingScreen_def errorMessage_def)
  show "s \<in> {PincodeSet, EnableBiometry, ImportSelect, SignInWithEmail, ImportWallet,
            LinkPhoneNumber, VerificationStartScreen, ProtectWallet}
      \<longrightarrow> (\<exists>stepInfo. getStepInfo s navigator dispatch props = Inr stepInfo)
          \<and> (\<exists>w'. goToNextOnboardingScreen s props w = Inr w')"
    by (cases s) (simp_all add: getStepInfo_def goToNextOnboardingScreen_def)
  show "\<exists>r. getOnboardingStepValues features s props = Inr r"
    by (rule getOnboardingStepValues_returns)
qed

theorem C5_unhandled_screen_witness:
  "TabHome \<notin> {PincodeSet, EnableBiometry, ImportSelect, SignInWithEmail, ImportWallet,
           LinkPhoneNumber, VerificationStartScreen, ProtectWallet}
   \<and> getStepInfo TabHome NavigationService store_dispatch (onboardingPropsSelector (\<lambda>f. f = PhoneVerification \<or> f = ProtectWalletFeature) False None None False)
     = Inl (UnhandledScreen TabHome)
   \<and> PincodeSet \<in> {PincodeSet, EnableBiometry, ImportSelect, SignInWithEmail, ImportWallet,
           LinkPhoneNumber, VerificationStartScreen, ProtectWallet}
   \<and> (\<exists>stepInfo. getStepInfo PincodeSet NavigationService store_dispatch (onboardingPropsSelector (\<lambda>f. f = PhoneVerification \<or> f = ProtectWalletFeature) False None None False)
         = Inr stepInfo)"
  using C5_unhandled_screen [where s = TabHome and navigator = NavigationService
          and dispatch = store_dispatch and props = "(onboardingPropsSelector (\<lambda>f. f = PhoneVerification \<or> f = ProtectWalletFeature) False None None False)" and w = "[]"
          and screenValue = "\<lambda>_. []" and features = "(\<lambda>f. f = PhoneVerification \<or> f = ProtectWalletFeature)"]
        C5_unhandled_screen [where s = PincodeSet and navigator = NavigationService
          and dispatch = store_dispatch and props = "(onboardingPropsSelector (\<lambda>f. f = PhoneVerification \<or> f = ProtectWalletFeature) False None None False)" and w = "[]"
          and screenValue = "\<lambda>_. []" and features = "(\<lambda>f. f = PhoneVerification \<or> f = ProtectWalletFeature)"]
  by simp

section \<open>The effects of the driver\<close>

text \<open>
  C6. The \<open>finishOnboarding\<close> of the driver dispatches \<open>onboardingCompleted\<close>, then
  \<open>updateLastOnboardingScreen\<close> of the screen, then \<open>updateStatsigAndNavigate\<close> of the
  screen, and nothing else. An advance through \<open>wrapNavigate\<close> navigates and then
  dispatches \<open>updateLastOnboardingScreen\<close> of the destination. Every transition of the
  driver ends in one of the two: after at most a pop to \<open>Welcome\<close> or a dispatch of
  \<open>initializeAccount\<close>, it navigates to a screen that is not an end screen and records it,
  or it finishes with the three dispatches for \<open>ChooseYourAdventure\<close>.
\<close>

theorem C6_driver_effects:
  "finishOnboarding NavigationService screen w
     = w @ [Dispatch onboardingCompleted, Dispatch (updateLastOnboardingScreen screen),
            Dispatch (updateStatsigAndNavigate screen)]
   \<and> wrapNavigate NavigationService store_dispatch screen params w
     = w @ [Navigate screen params, Dispatch (updateLastOnboardingScreen screen)]
   \<and> (goToNextOnboardingScreen s props w = Inr w' \<longrightarrow>
        (\<exists>pre. set pre \<subseteq> {PopToScreen Welcome, Dispatch initializeAccount}
           \<and> ((\<exists>dest params. dest \<notin> set END_OF_ONBOARDING_SCREENS
                  \<and> w' = w @ pre @ [Navigate dest params,
                                     Dispatch (updateLastOnboardingScreen dest)])
              \<or> w' = w @ pre @ [Dispatch onboardingCompleted,
                                 Dispatch (updateLastOnboardingScreen ChooseYourAdventure),
                                 Dispatch (updateStatsigAndNavigate ChooseYourAdventure)])))"
proof (intro conjI impI)
  show "finishOnboarding NavigationService screen w
     = w @ [Dispatch onboardingCompleted, Dispatch (updateLastOnboardingScreen screen),
            Dispatch (updateStatsigAndNavigate screen)]"
    by (simp add: NavigationService_def store_dispatch_def)
  show "wrapNavigate NavigationService store_dispatch screen params w
     = w @ [Navigate screen params, Dispatch (updateLastOnboardingScreen screen)]"
    by (simp add: NavigationService_def store_dispatch_def wrapNavigate_def)
next
  assume run: "goToNextOnboardingScreen s props w = Inr w'"
  let ?fin = "[Dispatch onboardingCompleted,
               Dispatch (updateLastOnboardingScreen ChooseYourAdventure),
               Dispatch (updateStatsigAndNavigate ChooseYourAdventure)]"
  let ?adv = "\<lambda>dest params. [Navigate dest params, Dispatch (updateLastOnboardingScreen dest)]"
  from run consider
      (adv) dest params where "dest \<notin> set END_OF_ONBOARDING_SCREENS"
        "w' = w @ ?adv dest params"
    | (pop) dest params where "dest \<notin> set END_OF_ONBOARDING_SCREENS"
        "w' = w @ [PopToScreen Welcome] @ ?adv dest params"
    | (ini) dest params where "dest \<notin> set END_OF_ONBOARDING_SCREENS"
        "w' = w @ [Dispatch initializeAccount] @ ?adv dest params"
    | (fin) "w' = w @ ?fin"
    | (inifin) "w' = w @ [Dispatch initializeAccount] @ ?fin"
    by (cases s) (auto simp: driver_defs table_defs END_OF_ONBOARDING_SCREENS_def
                    split: if_splits)
  then show "\<exists>pre. set pre \<subseteq> {PopToScreen Welcome, Dispatch initializeAccount}
           \<and> ((\<exists>dest params. dest \<notin> set END_OF_ONBOARDING_SCREENS
                  \<and> w' = w @ pre @ [Navigate dest params,
                                     Dispatch (updateLastOnboardingScreen dest)])
              \<or> w' = w @ pre @ ?fin)"
  proof cases
    case adv
    then show ?thesis by (intro exI[of _ "[]"]) auto
  next
    case pop
    then show ?thesis by (intro exI[of _ "[PopToScreen Welcome]"]) auto
  next
    case ini
    then show ?thesis by (intro exI[of _ "[Dispatch initializeAccount]"]) auto
  next
    case fin
    then show ?thesis by (intro exI[of _ "[]"]) auto
  next
    case inifin
    then show ?thesis by (intro exI[of _ "[Dispatch initializeAccount]"]) auto
  qed
qed

theorem C6_driver_effects_witness:
  "goToNextOnboardingScreen ProtectWallet
       ((onboardingPropsSelector (\<lambda>f. f = PhoneVerification \<or> f = ProtectWalletFeature) False None None False) \<lparr> skipVerification := True \<rparr>) []
     = Inr [Dispatch onboardingCompleted,
            Dispatch (updateLastOnboardingScreen ChooseYourAdventure),
            Dispatch (updateStatsigAndNavigate ChooseYourAdventure)]
   \<and> goToNextOnboardingScreen PincodeSet (onboardingPropsSelector (\<lambda>f. f = PhoneVerification \<or> f = ProtectWalletFeature) False None None False) []
     = Inr [Dispatch initializeAccount, Navigate ProtectWallet None,
            Dispatch (updateLastOnboardingScreen ProtectWallet)]
   \<and> (\<exists>pre. set pre \<subseteq> {PopToScreen Welcome, Dispatch initializeAccount}
         \<and> ((\<exists>dest params. dest \<notin> set END_OF_ONBOARDING_SCREENS
                \<and> [Dispatch initializeAccount, Navigate ProtectWallet None,
                    Dispatch (updateLastOnboardingScreen ProtectWallet)]
                  = [] @ pre @ [Navigate dest params,
                                Dispatch (updateLastOnboardingScreen dest)])
            \<or> [Dispatch initializeAccount, Navigate ProtectWallet None,
                Dispatch (updateLastOnboardingScreen ProtectWallet)]
              = [] @ pre @ [Dispatch onboardingCompleted,
                            Dispatch (updateLastOnboardingScreen ChooseYourAdventure),
                            Dispatch (updateStatsigAndNavigate ChooseYourAdventure)]))"
  using C6_driver_effects [where s = PincodeSet and props = "(onboardingPropsSelector (\<lambda>f. f = PhoneVerification \<or> f = ProtectWalletFeature) False None None False)" and w = "[]"
          and w' = "[Dispatch initializeAccount, Navigate ProtectWallet None,
                     Dispatch (updateLastOnboardingScreen ProtectWallet)]"
          and screen = ChooseYourAdventure and params = None]
  by (simp add: driver_defs table_defs onboardingPropsSelector_def)

section \<open>After verification\<close>

text \<open>
  C7. For every snapshot, the transitions from \<open>LinkPhoneNumber\<close> and from
  \<open>VerificationStartScreen\<close> are a call of \<open>finishOnboarding\<close> for
  \<open>ChooseYourAdventure\<close> and nothing else, whatever the navigator and the dispatch function:
  the driver dispatches the three effects of finishing, navigates nowhere and does not
  dispatch \<open>initializeAccount\<close>.
\<close>

theorem C7_verification_screens_finish:
  "getStepInfo LinkPhoneNumber navigator dispatch props
     = Inr \<lparr> next = finishOnboarding navigator ChooseYourAdventure \<rparr>
   \<and> getStepInfo VerificationStartScreen navigator dispatch props
     = Inr \<lparr> next = finishOnboarding navigator ChooseYourAdventure \<rparr>
   \<and> goToNextOnboardingScreen LinkPhoneNumber props w
     = Inr (w @ [Dispatch onboardingCompleted,
                 Dispatch (updateLastOnboardingScreen ChooseYourAdventure),
                 Dispatch (updateStatsigAndNavigate ChooseYourAdventure)])
   \<and> goToNextOnboardingScreen VerificationStartScreen props w
     = Inr (w @ [Dispatch onboardingCompleted,
                 Dispatch (updateLastOnboardingScreen ChooseYourAdventure),
                 Dispatch (updateStatsigAndNavigate ChooseYourAdventure)])"
  by (simp add: driver_defs table_defs)

section \<open>The snapshots of the selector\<close>

text \<open>
  C8. In every snapshot that \<open>onboardingPropsSelector\<close> produces, if
  \<open>showCloudAccountBackupSetup\<close> is set then \<open>showCloudAccountBackupRestore\<close> is set, and
  the \<open>CloudBackup\<close> toggle is on.
\<close>

theorem C8_setup_implies_restore:
  "showCloudAccountBackupSetup (onboardingPropsSelector features r c b n)
     \<longrightarrow> showCloudAccountBackupRestore (onboardingPropsSelector features r c b n)
         \<and> features CloudBackup"
  by (simp add: onboardingPropsSelector_def)

theorem C8_setup_implies_restore_witness:
  "showCloudAccountBackupSetup (onboardingPropsSelector (\<lambda>_. True) False None None False)
   \<and> showCloudAccountBackupRestore (onboardingPropsSelector (\<lambda>_. True) False None None False)"
  using C8_setup_implies_restore [where features = "\<lambda>_. True" and r = False and c = None
          and b = None and n = False]
  by (simp add: onboardingPropsSelector_def)

text \<open>
  C9. With the \<open>EnableBiometry\<close> toggle off, every snapshot of the selector has the
  biometry type \<open>null\<close>; then no transition of the driver navigates to \<open>EnableBiometry\<close>,
  no pass of the simulation loop moves to it, and it is not among the screens of the
  simulation that starts at \<open>firstOnboardingScreen\<close>.
\<close>

theorem C9_biometry_disabled:
  fixes features r c b n screen
  defines "props \<equiv> onboardingPropsSelector features r c b n"
  defines "start \<equiv> \<lparr> stepCounter = 1, totalCounter = 1, reachedStep = False,
      currentScreen = firstOnboardingScreen features (recoveringFromStoreWipe props) \<rparr>"
  assumes off: "\<not> features EnableBiometryFeature"
  shows "supportedBiometryType props = None
    \<and> (\<forall>s w params. goToNextOnboardingScreen s props [] = Inr w
          \<longrightarrow> Navigate EnableBiometry params \<notin> set w)
    \<and> (\<forall>target a a'. loopBody props target a = Inr a'
          \<longrightarrow> currentScreen a' \<noteq> EnableBiometry)
    \<and> EnableBiometry \<notin> set (map currentScreen (loopStates props screen start))"
proof -
  have none: "supportedBiometryType props = None"
    using off by (simp add: props_def onboardingPropsSelector_def)
  have first: "currentScreen start \<noteq> EnableBiometry"
    by (simp add: start_def firstOnboardingScreen_def)
  have "currentScreen a \<noteq> EnableBiometry" if "a \<in> set (loopStates props screen start)" for a
    using loopStates_members [OF that] first loopBody_not_EnableBiometry [OF _ none] by auto
  then have "EnableBiometry \<notin> set (map currentScreen (loopStates props screen start))"
    by (metis (no_types) imageE list.set_map)
  with none driver_not_EnableBiometry [OF _ none] loopBody_not_EnableBiometry [OF _ none]
  show ?thesis by blast
qed

theorem C9_biometry_disabled_witness:
  "\<not> (\<lambda>f. f = PhoneVerification \<or> f = ProtectWalletFeature) EnableBiometryFeature
   \<and> supportedBiometryType (onboardingPropsSelector (\<lambda>f. f = PhoneVerification \<or> f = ProtectWalletFeature) False None (Some FINGERPRINT) False) = None
   \<and> goToNextOnboardingScreen PincodeSet (onboardingPropsSelector (\<lambda>f. f = PhoneVerification \<or> f = ProtectWalletFeature) False None (Some FINGERPRINT) False) []
     = Inr [Dispatch initializeAccount, Navigate ProtectWallet None,
            Dispatch (updateLastOnboardingScreen ProtectWallet)]
   \<and> map currentScreen
       (loopStates (onboardingPropsSelector (\<lambda>f. f = PhoneVerification \<or> f = ProtectWalletFeature) False None (Some FINGERPRINT) False) EnableBiometry
          \<lparr> stepCounter = 1, totalCounter = 1, reachedStep = False,
            currentScreen = PincodeSet \<rparr>)
     = [PincodeSet, ProtectWallet, VerificationStartScreen, ChooseYourAdventure]"
  using C9_biometry_disabled [where features = "(\<lambda>f. f = PhoneVerification \<or> f = ProtectWalletFeature)" and r = False and c = None
          and b = "Some FINGERPRINT" and n = False and screen = EnableBiometry]
  by (simp add: loopStates.simps onboardingPropsSelector_def counting_defs table_defs
        driver_defs Let_def)

section \<open>A target off the path\<close>

text \<open>
  C10. If the target screen is not among the screens of the simulation that starts at
  \<open>firstOnboardingScreen\<close>, then \<open>getOnboardingStepValues\<close> returns, and the step it
  returns equals the total.
\<close>

theorem C10_unvisited_target:
  fixes features props screen
  defines "start \<equiv> \<lparr> stepCounter = 1, totalCounter = 1, reachedStep = False,
      currentScreen = firstOnboardingScreen features (recoveringFromStoreWipe props) \<rparr>"
  assumes unvisited: "screen \<notin> set (map currentScreen (loopStates props screen start))"
  shows "\<exists>r. getOnboardingStepValues features screen props = Inr r
             \<and> step r = totalSteps r"
proof -
  let ?states = "loopStates props screen start"
  let ?I = "\<lambda>a. a \<in> set ?states \<and> \<not> reachedStep a \<and> stepCounter a = totalCounter a"
  have "onboardingScreen (currentScreen start)"
    using firstOnboardingScreen_steps by (simp add: start_def)
  then have run: "whileLoop props screen start = Inr (last ?states)"
    using whileLoop_last by blast
  have "?I (last ?states) \<and> currentScreen (last ?states) \<in> set END_OF_ONBOARDING_SCREENS"
  proof (rule whileLoop_rule [OF run])
    show "?I start"
      using loopStates_hd [of props screen start] by (auto simp: start_def)
  next
    fix a b
    assume a: "?I a" and nt: "currentScreen a \<notin> set END_OF_ONBOARDING_SCREENS"
      and b: "loopBody props screen a = Inr b"
    from a unvisited have "currentScreen a \<noteq> screen" by auto
    with a b have "\<not> reachedStep b \<and> stepCounter b = totalCounter b"
      using loopBody_lockstep by blast
    moreover from a nt b have "b \<in> set ?states" using loopStates_closed by blast
    ultimately show "?I b" by simp
  qed
  with run show ?thesis
    by (simp add: getOnboardingStepValues_def start_def)
qed

theorem C10_unvisited_target_witness:
  "EnableBiometry \<notin> set (map currentScreen
       (loopStates (onboardingPropsSelector (\<lambda>f. f = PhoneVerification \<or> f = ProtectWalletFeature) False None None False) EnableBiometry
          \<lparr> stepCounter = 1, totalCounter = 1, reachedStep = False,
            currentScreen = PincodeSet \<rparr>))
   \<and> getOnboardingStepValues (\<lambda>f. f = PhoneVerification \<or> f = ProtectWalletFeature) EnableBiometry (onboardingPropsSelector (\<lambda>f. f = PhoneVerification \<or> f = ProtectWalletFeature) False None None False)
     = Inr \<lparr> totalSteps = 3, step = 3 \<rparr>"
  using C10_unvisited_target [where screen = EnableBiometry and props = "(onboardingPropsSelector (\<lambda>f. f = PhoneVerification \<or> f = ProtectWalletFeature) False None None False)"
          and features = "(\<lambda>f. f = PhoneVerification \<or> f = ProtectWalletFeature)"]
  by (simp add: getOnboardingStepValues_def firstOnboardingScreen_def whileLoop.simps
        loopStates.simps onboardingPropsSelector_def counting_defs table_defs Let_def)

end
